theory Spec2Isabelle
  imports Complex_Main "HOL-Library.Char_ord" "HOL-Library.List_Lexorder" "HOL-Library.Multiset"
begin

section \<open>Text: the string operations the dashboard relies on\<close>

text \<open>
  Company names, filter values and date bounds are Python \<open>str\<close> values. They are
  modelled as \<open>string\<close> (lists of characters); the model covers ASCII text, where
  \<open>str.upper\<close> changes exactly the letters a..z, \<open>str.strip\<close> removes the
  characters 0x09..0x0D, 0x1C..0x1F and the blank, and the regular expression class
  \<open>\w\<close> holds the letters, the digits and the underscore.
\<close>

definition is_space :: "char \<Rightarrow> bool" where
  "is_space c = (c \<in> set [CHR 0x09, CHR 0x0A, CHR 0x0B, CHR 0x0C, CHR 0x0D,
                           CHR 0x1C, CHR 0x1D, CHR 0x1E, CHR 0x1F, CHR '' ''])"

text \<open>\<open>s.strip()\<close>: whitespace is removed at both ends and nowhere else.\<close>

definition strip :: "string \<Rightarrow> string" where
  "strip s = rev (dropWhile is_space (rev (dropWhile is_space s)))"

definition upper_char :: "char \<Rightarrow> char" where
  "upper_char c =
     (case map_of (zip ''abcdefghijklmnopqrstuvwxyz'' ''ABCDEFGHIJKLMNOPQRSTUVWXYZ'') c of
        Some u \<Rightarrow> u
      | None \<Rightarrow> c)"

text \<open>\<open>s.upper()\<close>.\<close>

definition upper :: "string \<Rightarrow> string" where
  "upper s = map upper_char s"

text \<open>The class \<open>\w\<close> of the regular expression module.\<close>

definition is_word :: "char \<Rightarrow> bool" where
  "is_word c = (c \<in> set (''ABCDEFGHIJKLMNOPQRSTUVWXYZ'' @ ''abcdefghijklmnopqrstuvwxyz''
                           @ ''0123456789'' @ ''_''))"

section \<open>The name normalizer \<open>clean_name\<close>\<close>

text \<open>
  \<^verbatim>\<open>re.sub(r'\b(LTD|LLC|INC|CO|COMPANY|LIMITED|PRIVATE)\b\.?', '', name.upper()).strip()\<close>

  The pattern is matched the way the regular expression module does it: the text is
  scanned from the left; at each position the alternatives are tried in the order they
  are written; \<open>\b\<close> holds between two positions of which exactly one is a word
  character (the two ends of the text count as not a word character); \<open>\.?\<close> takes
  a period when one follows; a match is replaced by nothing and the scan goes on right
  after it, still seeing the character before.
\<close>

definition suffix_tokens :: "string list" where
  "suffix_tokens = [''LTD'', ''LLC'', ''INC'', ''CO'', ''COMPANY'', ''LIMITED'', ''PRIVATE'']"

text \<open>\<open>\b\<close> between the character \<open>prev\<close> (if any) and the text \<open>rest\<close>.\<close>

definition word_boundary :: "char option \<Rightarrow> string \<Rightarrow> bool" where
  "word_boundary prev rest =
     ((case prev of None \<Rightarrow> False | Some c \<Rightarrow> is_word c)
        \<noteq> (case rest of [] \<Rightarrow> False | c # _ \<Rightarrow> is_word c))"

text \<open>
  One alternative \<open>t\<close> followed by \<open>\b\.?\<close>, tried at the head of \<open>rest\<close>:
  the number of characters the match takes.
\<close>

definition match_alt :: "string \<Rightarrow> string \<Rightarrow> nat option" where
  "match_alt t rest =
     (if t \<noteq> [] \<and> take (length t) rest = t
           \<and> word_boundary (Some (last t)) (drop (length t) rest)
      then Some (length t + (case drop (length t) rest of
                               [] \<Rightarrow> 0
                             | c # _ \<Rightarrow> if c = CHR ''.'' then 1 else 0))
      else None)"

fun first_alt :: "string list \<Rightarrow> string \<Rightarrow> nat option" where
  "first_alt [] rest = None"
| "first_alt (t # ts) rest =
     (case match_alt t rest of Some n \<Rightarrow> Some n | None \<Rightarrow> first_alt ts rest)"

text \<open>The whole pattern tried at one position.\<close>

definition match_here :: "char option \<Rightarrow> string \<Rightarrow> nat option" where
  "match_here prev rest =
     (if word_boundary prev rest then first_alt suffix_tokens rest else None)"

text \<open>
  \<open>re.sub(pattern, '', s)\<close>: \<open>prev\<close> is the character before the position
  the scan is at. A match takes at least one character, which is why the scan ends.
\<close>

function re_sub_suffix :: "char option \<Rightarrow> string \<Rightarrow> string" where
  "re_sub_suffix prev [] = []"
| "re_sub_suffix prev (c # cs) =
     (case match_here prev (c # cs) of
        Some n \<Rightarrow>
          if 0 < n then re_sub_suffix (Some ((c # cs) ! (n - 1))) (drop n (c # cs))
          else c # re_sub_suffix (Some c) cs
      | None \<Rightarrow> c # re_sub_suffix (Some c) cs)"
  by pat_completeness auto
termination
  by (relation "measure (\<lambda>(prev, s). length s)") auto

definition clean_name :: "string \<Rightarrow> string" where
  "clean_name name = strip (re_sub_suffix None (upper name))"

section \<open>The data set\<close>

text \<open>
  A calendar date (\<open>datetime.date\<close>): year, month, day. Dates are compared as Python
  compares them, by year, then month, then day.
\<close>

datatype date = YMD nat nat nat

fun date_le :: "date \<Rightarrow> date \<Rightarrow> bool" where
  "date_le (YMD y1 m1 d1) (YMD y2 m2 d2) =
     (y1 < y2 \<or> (y1 = y2 \<and> (m1 < m2 \<or> (m1 = m2 \<and> d1 \<le> d2))))"

text \<open>
  One row of the sheet as \<open>load_data\<close> sees it after the library's coercions, which
  never raise: \<open>Date\<close> after \<open>pd.to_datetime(..., errors='coerce')\<close> (\<open>None\<close> is
  the null timestamp NaT), the three numeric columns after
  \<open>pd.to_numeric(..., errors='coerce')\<close> (\<open>None\<close> is NaN; the arithmetic is exact,
  rounding is not modelled). A text cell is its text, or \<open>None\<close> when the cell is
  empty (NaN). \<open>HS_Code\<close> holds the cell in the form \<open>astype(str)\<close> gives it, the
  only form the code reads.
\<close>

record raw_row =
  Date :: "date option"
  Shipper_Declared :: "string option"
  International_Competitor :: "string option"
  Domestic_Competitor :: "string option"
  HS_Code :: string
  Country_of_Origin :: "string option"
  Category :: "string option"
  Metric_Tons :: "real option"
  Total_calculated_value :: "real option"
  Val_KG :: "real option"

text \<open>A row of the loaded frame: the sheet's columns and the two derived ones.\<close>

record data_row = raw_row +
  Buyer :: string
  Seller :: "string option"

text \<open>\<open>str(cell).strip() if pd.notna(cell) else ''\<close>\<close>

definition cell_text :: "string option \<Rightarrow> string" where
  "cell_text cell = (case cell of Some s \<Rightarrow> strip s | None \<Rightarrow> [])"

text \<open>\<open>determine_buyer\<close>, on the three declarant cells of a row.\<close>

definition determine_buyer :: "'a raw_row_scheme \<Rightarrow> string" where
  "determine_buyer row =
     (let shipper = cell_text (Shipper_Declared row);
          intl_comp = cell_text (International_Competitor row);
          dom_comp = cell_text (Domestic_Competitor row);
          shipper_clean = clean_name shipper;
          intl_clean = clean_name intl_comp;
          dom_clean = clean_name dom_comp
      in if intl_comp \<noteq> [] \<and> intl_clean \<noteq> shipper_clean then intl_comp
         else if dom_comp \<noteq> [] \<and> dom_clean \<noteq> shipper_clean then dom_comp
         else if intl_comp \<noteq> [] then intl_comp
         else if dom_comp \<noteq> [] then dom_comp
         else ''Unknown'')"

definition target_hs_codes :: "string list" where
  "target_hs_codes = [''854442'', ''854449'', ''854460'', ''740311'']"

text \<open>
  \<open>df['Buyer'] = df.apply(determine_buyer, axis=1)\<close> and
  \<open>df['Seller'] = df['Shipper Declared']\<close>, row by row.
\<close>

definition add_buyer_seller :: "raw_row \<Rightarrow> data_row" where
  "add_buyer_seller r =
     \<lparr>Date = Date r, Shipper_Declared = Shipper_Declared r,
      International_Competitor = International_Competitor r,
      Domestic_Competitor = Domestic_Competitor r, HS_Code = HS_Code r,
      Country_of_Origin = Country_of_Origin r, Category = Category r,
      Metric_Tons = Metric_Tons r, Total_calculated_value = Total_calculated_value r,
      Val_KG = Val_KG r, Buyer = determine_buyer r, Seller = Shipper_Declared r\<rparr>"

text \<open>
  \<open>load_data\<close>. The argument is what \<open>pd.read_excel\<close> delivers: the rows of the
  sheet, or \<open>None\<close> when reading raises; the \<open>except\<close> branch then returns the
  empty frame.
\<close>

definition load_data :: "raw_row list option \<Rightarrow> data_row list" where
  "load_data sheet =
     (case sheet of
        None \<Rightarrow> []
      | Some rows \<Rightarrow>
          filter (\<lambda>r. HS_Code r \<in> set target_hs_codes) (map add_buyer_seller rows))"

section \<open>Date bounds\<close>

definition is_digit :: "char \<Rightarrow> bool" where
  "is_digit c = (c \<in> set ''0123456789'')"

definition digit_val :: "char \<Rightarrow> nat" where
  "digit_val c = of_char c - 48"

definition leap_year :: "nat \<Rightarrow> bool" where
  "leap_year y = (y mod 4 = 0 \<and> (y mod 100 \<noteq> 0 \<or> y mod 400 = 0))"

definition days_in_month :: "nat \<Rightarrow> nat \<Rightarrow> nat" where
  "days_in_month y m =
     (if m = 2 then (if leap_year y then 29 else 28)
      else if m = 4 \<or> m = 6 \<or> m = 9 \<or> m = 11 then 30 else 31)"

text \<open>The dates \<open>datetime.date(y, m, d)\<close> builds; any other triple raises ValueError.\<close>

definition valid_date :: "nat \<Rightarrow> nat \<Rightarrow> nat \<Rightarrow> bool" where
  "valid_date y m d =
     (1 \<le> y \<and> y \<le> 9999 \<and> 1 \<le> m \<and> m \<le> 12 \<and> 1 \<le> d \<and> d \<le> days_in_month y m)"

text \<open>
  \<open>datetime.strptime(s, '%m/%d/%Y')\<close> matches the whole of \<open>s\<close> against
  \<^verbatim>\<open>(1[0-2]|0[1-9]|[1-9])/(3[0-1]|[1-2]\d|0[1-9]|[1-9]| [1-9])/(\d\d\d\d)\<close>
  and builds the date from the three numbers. No field can hold a slash, so the month is
  the text before the first slash, the day the text between the first and the second,
  and the year all that follows. The three functions below say which texts a field
  matches in full, and the number it stands for.
\<close>

definition month_field :: "string \<Rightarrow> nat option" where
  "month_field s =
     (case s of
        [c] \<Rightarrow> if is_digit c \<and> c \<noteq> CHR ''0'' then Some (digit_val c) else None
      | [c1, c2] \<Rightarrow>
          if c1 = CHR ''1'' \<and> c2 \<in> set ''012'' then Some (10 + digit_val c2)
          else if c1 = CHR ''0'' \<and> is_digit c2 \<and> c2 \<noteq> CHR ''0'' then Some (digit_val c2)
          else None
      | _ \<Rightarrow> None)"

definition day_field :: "string \<Rightarrow> nat option" where
  "day_field s =
     (case s of
        [c] \<Rightarrow> if is_digit c \<and> c \<noteq> CHR ''0'' then Some (digit_val c) else None
      | [c1, c2] \<Rightarrow>
          if c1 = CHR ''3'' \<and> c2 \<in> set ''01'' then Some (30 + digit_val c2)
          else if c1 \<in> set ''12'' \<and> is_digit c2 then Some (10 * digit_val c1 + digit_val c2)
          else if c1 = CHR ''0'' \<and> is_digit c2 \<and> c2 \<noteq> CHR ''0'' then Some (digit_val c2)
          else if c1 = CHR '' '' \<and> is_digit c2 \<and> c2 \<noteq> CHR ''0'' then Some (digit_val c2)
          else None
      | _ \<Rightarrow> None)"

definition year_field :: "string \<Rightarrow> nat option" where
  "year_field s =
     (case s of
        [c1, c2, c3, c4] \<Rightarrow>
          if is_digit c1 \<and> is_digit c2 \<and> is_digit c3 \<and> is_digit c4
          then Some (1000 * digit_val c1 + 100 * digit_val c2 + 10 * digit_val c3 + digit_val c4)
          else None
      | _ \<Rightarrow> None)"

text \<open>\<open>None\<close> stands for the ValueError \<open>strptime\<close> raises.\<close>

definition strptime_mdY :: "string \<Rightarrow> date option" where
  "strptime_mdY s =
     (let not_slash = (\<lambda>c. c \<noteq> CHR ''/'');
          m_text = takeWhile not_slash s;
          after_m = dropWhile not_slash s
      in case after_m of
           [] \<Rightarrow> None
         | _ # s2 \<Rightarrow>
             (let d_text = takeWhile not_slash s2;
                  after_d = dropWhile not_slash s2
              in case after_d of
                   [] \<Rightarrow> None
                 | _ # y_text \<Rightarrow>
                     (case month_field m_text of
                        None \<Rightarrow> None
                      | Some m \<Rightarrow>
                          (case day_field d_text of
                             None \<Rightarrow> None
                           | Some d \<Rightarrow>
                               (case year_field y_text of
                                  None \<Rightarrow> None
                                | Some y \<Rightarrow>
                                    if valid_date y m d then Some (YMD y m d) else None)))))"

text \<open>
  \<open>parse_date_simple\<close>: the empty text gives \<open>None\<close> at once, and the bare
  \<open>except\<close> turns every error of \<open>strptime\<close> into \<open>None\<close>.
\<close>

definition parse_date_simple :: "string \<Rightarrow> date option" where
  "parse_date_simple date_string =
     (if date_string = [] then None else strptime_mdY (strip date_string))"

section \<open>The filter state and the filtered frame\<close>

text \<open>
  The seven values the callbacks read. The two date inputs are text inputs (declared
  with \<open>value=''\<close>), the five dropdowns hold a text or nothing (\<open>value=None\<close>).
\<close>

record filter_state =
  start_date :: string
  end_date :: string
  buyer :: "string option"
  seller :: "string option"
  hs_code :: "string option"
  country :: "string option"
  category :: "string option"

text \<open>
  \<open>filtered_df['Date'].dt.date >= start_parsed\<close> and \<open><= end_parsed\<close>, for one
  row: a comparison with the null timestamp is false.
\<close>

definition date_ge :: "date option \<Rightarrow> date \<Rightarrow> bool" where
  "date_ge cell bound = (case cell of None \<Rightarrow> False | Some d \<Rightarrow> date_le bound d)"

definition date_lt_eq :: "date option \<Rightarrow> date \<Rightarrow> bool" where
  "date_lt_eq cell bound = (case cell of None \<Rightarrow> False | Some d \<Rightarrow> date_le d bound)"

text \<open>\<open>astype(str)\<close> on a text column: an empty cell becomes the text \<open>nan\<close>.\<close>

definition astype_str :: "string option \<Rightarrow> string" where
  "astype_str cell = (case cell of None \<Rightarrow> ''nan'' | Some s \<Rightarrow> s)"

text \<open>
  The column \<open>filtered_df['Date'].dt.date\<close> is a column of dates and null values, in
  which a comparison with a null value is false, unless the frame is not empty and every
  date in it is null: then the column the accessor builds is again a timestamp column
  (pandas 2), and comparing it with a \<open>datetime.date\<close> raises TypeError.
\<close>

datatype py_error = TypeError

definition all_dates_null :: "data_row list \<Rightarrow> bool" where
  "all_dates_null df = (df \<noteq> [] \<and> list_all (\<lambda>r. Date r = None) df)"

text \<open>
  The seven statements that narrow \<open>filtered_df\<close>, one definition each, in the order
  of the source. \<open>update_dashboard\<close> and \<open>update_dropdown_options\<close> hold the same
  seven statements. Only the two date statements can raise.
\<close>

definition by_start_date :: "filter_state \<Rightarrow> data_row list \<Rightarrow> py_error + data_row list" where
  "by_start_date st df =
     (if start_date st \<noteq> [] then
        (case parse_date_simple (start_date st) of
           Some start_parsed \<Rightarrow>
             if all_dates_null df then Inl TypeError
             else Inr (filter (\<lambda>r. date_ge (Date r) start_parsed) df)
         | None \<Rightarrow> Inr df)
      else Inr df)"

definition by_end_date :: "filter_state \<Rightarrow> data_row list \<Rightarrow> py_error + data_row list" where
  "by_end_date st df =
     (if end_date st \<noteq> [] then
        (case parse_date_simple (end_date st) of
           Some end_parsed \<Rightarrow>
             if all_dates_null df then Inl TypeError
             else Inr (filter (\<lambda>r. date_lt_eq (Date r) end_parsed) df)
         | None \<Rightarrow> Inr df)
      else Inr df)"

definition by_buyer :: "filter_state \<Rightarrow> data_row list \<Rightarrow> data_row list" where
  "by_buyer st df =
     (case buyer st of
        Some b \<Rightarrow> if b \<noteq> [] then filter (\<lambda>r. Buyer r = b) df else df
      | None \<Rightarrow> df)"

definition by_seller :: "filter_state \<Rightarrow> data_row list \<Rightarrow> data_row list" where
  "by_seller st df =
     (case seller st of
        Some s \<Rightarrow> if s \<noteq> [] then filter (\<lambda>r. astype_str (Seller r) = s) df else df
      | None \<Rightarrow> df)"

definition by_hs_code :: "filter_state \<Rightarrow> data_row list \<Rightarrow> data_row list" where
  "by_hs_code st df =
     (case hs_code st of
        Some h \<Rightarrow> if h \<noteq> [] then filter (\<lambda>r. HS_Code r = h) df else df
      | None \<Rightarrow> df)"

definition by_country :: "filter_state \<Rightarrow> data_row list \<Rightarrow> data_row list" where
  "by_country st df =
     (case country st of
        Some c \<Rightarrow> if c \<noteq> [] then filter (\<lambda>r. astype_str (Country_of_Origin r) = c) df else df
      | None \<Rightarrow> df)"

definition by_category :: "filter_state \<Rightarrow> data_row list \<Rightarrow> data_row list" where
  "by_category st df =
     (case category st of
        Some c \<Rightarrow> if c \<noteq> [] then filter (\<lambda>r. astype_str (Category r) = c) df else df
      | None \<Rightarrow> df)"

text \<open>\<open>filtered_df\<close> after the seven statements, or the error one of them raises.\<close>

definition filtered_df :: "data_row list \<Rightarrow> filter_state \<Rightarrow> py_error + data_row list" where
  "filtered_df df st =
     (case by_start_date st df of
        Inl e \<Rightarrow> Inl e
      | Inr f1 \<Rightarrow>
          (case by_end_date st f1 of
             Inl e \<Rightarrow> Inl e
           | Inr f2 \<Rightarrow>
               Inr (by_category st (by_country st (by_hs_code st (by_seller st
                      (by_buyer st f2)))))))"

text \<open>The dimensions of the filter state, to speak about the order of the statements.\<close>

datatype dimension =
  StartDate | EndDate | BuyerDim | SellerDim | HsCodeDim | CountryDim | CategoryDim

fun apply_dimension ::
  "filter_state \<Rightarrow> dimension \<Rightarrow> data_row list \<Rightarrow> py_error + data_row list" where
  "apply_dimension st StartDate df = by_start_date st df"
| "apply_dimension st EndDate df = by_end_date st df"
| "apply_dimension st BuyerDim df = Inr (by_buyer st df)"
| "apply_dimension st SellerDim df = Inr (by_seller st df)"
| "apply_dimension st HsCodeDim df = Inr (by_hs_code st df)"
| "apply_dimension st CountryDim df = Inr (by_country st df)"
| "apply_dimension st CategoryDim df = Inr (by_category st df)"

text \<open>The statements of a list of dimensions, one after the other; an error ends the run.\<close>

fun apply_in_order ::
  "filter_state \<Rightarrow> dimension list \<Rightarrow> data_row list \<Rightarrow> py_error + data_row list" where
  "apply_in_order st [] df = Inr df"
| "apply_in_order st (d # ds) df =
     (case apply_dimension st d df of
        Inl e \<Rightarrow> Inl e
      | Inr f \<Rightarrow> apply_in_order st ds f)"

definition source_order :: "dimension list" where
  "source_order = [StartDate, EndDate, BuyerDim, SellerDim, HsCodeDim, CountryDim, CategoryDim]"

text \<open>
  A dimension is set when its value passes the test \<open>if value:\<close> of the source: the
  text is not empty, the dropdown holds a text that is not empty.
\<close>

definition truthy :: "string option \<Rightarrow> bool" where
  "truthy v = (case v of None \<Rightarrow> False | Some s \<Rightarrow> s \<noteq> [])"

fun is_set :: "filter_state \<Rightarrow> dimension \<Rightarrow> bool" where
  "is_set st StartDate = (start_date st \<noteq> [])"
| "is_set st EndDate = (end_date st \<noteq> [])"
| "is_set st BuyerDim = truthy (buyer st)"
| "is_set st SellerDim = truthy (seller st)"
| "is_set st HsCodeDim = truthy (hs_code st)"
| "is_set st CountryDim = truthy (country st)"
| "is_set st CategoryDim = truthy (category st)"

text \<open>
  What a dimension that is set asks of one row: a date bound that parses asks the row's
  date to be on the right side of it (a bound that does not parse asks nothing), a
  dropdown asks the column's text to be the selected text.
\<close>

fun matches :: "filter_state \<Rightarrow> dimension \<Rightarrow> data_row \<Rightarrow> bool" where
  "matches st StartDate r =
     (case parse_date_simple (start_date st) of
        None \<Rightarrow> True | Some b \<Rightarrow> date_ge (Date r) b)"
| "matches st EndDate r =
     (case parse_date_simple (end_date st) of
        None \<Rightarrow> True | Some b \<Rightarrow> date_lt_eq (Date r) b)"
| "matches st BuyerDim r = (Some (Buyer r) = buyer st)"
| "matches st SellerDim r = (Some (astype_str (Seller r)) = seller st)"
| "matches st HsCodeDim r = (Some (HS_Code r) = hs_code st)"
| "matches st CountryDim r = (Some (astype_str (Country_of_Origin r)) = country st)"
| "matches st CategoryDim r = (Some (astype_str (Category r)) = category st)"

text \<open>A record survives when every dimension that is set matches it.\<close>

definition survives :: "filter_state \<Rightarrow> data_row \<Rightarrow> bool" where
  "survives st r = list_all (\<lambda>d. \<not> is_set st d \<or> matches st d r) source_order"

section \<open>The dropdown options\<close>

text \<open>\<open>Series.dropna()\<close> and \<open>Series.unique()\<close> (the values in order of first appearance).\<close>

fun dropna :: "'a option list \<Rightarrow> 'a list" where
  "dropna [] = []"
| "dropna (None # xs) = dropna xs"
| "dropna (Some x # xs) = x # dropna xs"

definition unique :: "'a list \<Rightarrow> 'a list" where
  "unique xs = rev (remdups (rev xs))"

text \<open>
  \<open>[{'label': x, 'value': x} for x in sorted(xs)]\<close>: an option is the pair of its
  label and its value.
\<close>

definition options_sorted :: "string list \<Rightarrow> (string \<times> string) list" where
  "options_sorted xs = map (\<lambda>x. (x, x)) (sort xs)"

text \<open>
  \<open>update_dropdown_options\<close>: the options of the buyer, seller, HS code, country and
  category dropdowns, in this order.
\<close>

definition update_dropdown_options ::
  "data_row list \<Rightarrow> filter_state \<Rightarrow>
     py_error + ((string \<times> string) list \<times> (string \<times> string) list \<times> (string \<times> string) list
       \<times> (string \<times> string) list \<times> (string \<times> string) list)" where
  "update_dropdown_options df st =
     (if df = [] then Inr ([], [], [], [], [])
      else
        (case filtered_df df st of
           Inl e \<Rightarrow> Inl e
         | Inr fdf \<Rightarrow>
             (let buyers = unique (map Buyer fdf);
                  buyers_str = filter (\<lambda>b. b \<noteq> ''Unknown'') buyers;
                  buyer_options = options_sorted buyers_str;
                  sellers = unique (dropna (map Seller fdf));
                  seller_options = options_sorted sellers;
                  available_hs = unique (map HS_Code fdf);
                  hs_codes = filter (\<lambda>code. code \<in> set available_hs) target_hs_codes;
                  hs_options = options_sorted hs_codes;
                  countries = unique (dropna (map Country_of_Origin fdf));
                  country_options = options_sorted countries;
                  categories = unique (dropna (map Category fdf));
                  category_options = options_sorted categories
              in Inr (buyer_options, seller_options, hs_options, country_options,
                      category_options))))"

section \<open>Resets\<close>

text \<open>
  \<open>handle_resets\<close>. \<open>triggered\<close> is the list of the property ids in
  \<open>callback_context.triggered\<close>; the button is the part of the first id before the
  first period. The seven values returned are the new filter state.
\<close>

definition handle_resets :: "string list \<Rightarrow> filter_state \<Rightarrow> filter_state" where
  "handle_resets triggered st =
     (case triggered of
        [] \<Rightarrow>
          \<lparr>start_date = [], end_date = [], buyer = None, seller = None, hs_code = None,
           country = None, category = None\<rparr>
      | prop_id # _ \<Rightarrow>
          (let button_id = takeWhile (\<lambda>c. c \<noteq> CHR ''.'') prop_id;
               current_start = (if start_date st \<noteq> [] then start_date st else []);
               current_end = (if end_date st \<noteq> [] then end_date st else []);
               current_buyer = buyer st;
               current_seller = seller st;
               current_hs = hs_code st;
               current_country = country st;
               current_category = category st
           in if button_id = ''global-reset-btn'' then
                \<lparr>start_date = [], end_date = [], buyer = None, seller = None,
                 hs_code = None, country = None, category = None\<rparr>
              else if button_id = ''start-date-reset'' then
                \<lparr>start_date = [], end_date = current_end, buyer = current_buyer,
                 seller = current_seller, hs_code = current_hs, country = current_country,
                 category = current_category\<rparr>
              else if button_id = ''end-date-reset'' then
                \<lparr>start_date = current_start, end_date = [], buyer = current_buyer,
                 seller = current_seller, hs_code = current_hs, country = current_country,
                 category = current_category\<rparr>
              else if button_id = ''buyer-reset'' then
                \<lparr>start_date = current_start, end_date = current_end, buyer = None,
                 seller = current_seller, hs_code = current_hs, country = current_country,
                 category = current_category\<rparr>
              else if button_id = ''seller-reset'' then
                \<lparr>start_date = current_start, end_date = current_end, buyer = current_buyer,
                 seller = None, hs_code = current_hs, country = current_country,
                 category = current_category\<rparr>
              else if button_id = ''hs-reset'' then
                \<lparr>start_date = current_start, end_date = current_end, buyer = current_buyer,
                 seller = current_seller, hs_code = None, country = current_country,
                 category = current_category\<rparr>
              else if button_id = ''country-reset'' then
                \<lparr>start_date = current_start, end_date = current_end, buyer = current_buyer,
                 seller = current_seller, hs_code = current_hs, country = None,
                 category = current_category\<rparr>
              else if button_id = ''category-reset'' then
                \<lparr>start_date = current_start, end_date = current_end, buyer = current_buyer,
                 seller = current_seller, hs_code = current_hs, country = current_country,
                 category = None\<rparr>
              else
                \<lparr>start_date = current_start, end_date = current_end, buyer = current_buyer,
                 seller = current_seller, hs_code = current_hs, country = current_country,
                 category = current_category\<rparr>))"

section \<open>Top groups\<close>

text \<open>
  \<open>df.groupby(key)[col].sum()\<close>: rows with an empty key are left out, the groups come
  in ascending order of the key (\<open>sort=True\<close> is the default), and the sum of a group
  skips the empty cells.
\<close>

definition group_total ::
  "(data_row \<Rightarrow> string option) \<Rightarrow> (data_row \<Rightarrow> real option) \<Rightarrow> data_row list \<Rightarrow> string \<Rightarrow> real" where
  "group_total key col df k = sum_list (dropna (map col (filter (\<lambda>r. key r = Some k) df)))"

definition groupby_sum ::
  "(data_row \<Rightarrow> string option) \<Rightarrow> (data_row \<Rightarrow> real option) \<Rightarrow> data_row list
     \<Rightarrow> (string \<times> real) list" where
  "groupby_sum key col df =
     map (\<lambda>k. (k, group_total key col df k)) (sort (unique (dropna (map key df))))"

text \<open>
  \<open>Series.nlargest(n)\<close> with the default \<open>keep='first'\<close>. When the series has more
  than \<open>n\<close> values, the \<open>n\<close> largest are selected and put in descending order by a
  stable sort: equal values stay in the order the series has them. When it has at most
  \<open>n\<close> values the result is \<open>sort_values(ascending=False).head(n)\<close>, whose sort is
  not stable: the order among equal values is not determined by the library. That sort
  is a parameter of the model, \<open>sort_values_desc\<close>; \<open>descending_sort_of\<close> says what
  the library guarantees of it.
\<close>

definition descending_sort_of :: "(string \<times> real) list \<Rightarrow> (string \<times> real) list \<Rightarrow> bool" where
  "descending_sort_of series out =
     (mset out = mset series \<and> sorted_wrt (\<lambda>p q. snd q \<le> snd p) out)"

definition nlargest ::
  "((string \<times> real) list \<Rightarrow> (string \<times> real) list) \<Rightarrow> nat \<Rightarrow> (string \<times> real) list
     \<Rightarrow> (string \<times> real) list" where
  "nlargest sort_values_desc n series =
     (if length series \<le> n then take n (sort_values_desc series)
      else take n (sort_key (\<lambda>p. - snd p) series))"

text \<open>
  \<open>filtered_df.groupby('Buyer')['Metric Tons'].sum().nlargest(10)\<close> and
  \<open>filtered_df.groupby('Seller')['Total calculated value ($)'].sum().nlargest(10)\<close>;
  \<open>top_by\<close> is the shape the two share.
\<close>

definition top_by ::
  "((string \<times> real) list \<Rightarrow> (string \<times> real) list) \<Rightarrow> nat \<Rightarrow> (data_row \<Rightarrow> string option)
     \<Rightarrow> (data_row \<Rightarrow> real option) \<Rightarrow> data_row list \<Rightarrow> (string \<times> real) list" where
  "top_by sort_values_desc n key col df = nlargest sort_values_desc n (groupby_sum key col df)"

definition top_buyers ::
  "((string \<times> real) list \<Rightarrow> (string \<times> real) list) \<Rightarrow> data_row list \<Rightarrow> (string \<times> real) list" where
  "top_buyers sort_values_desc fdf =
     top_by sort_values_desc 10 (\<lambda>r. Some (Buyer r)) Metric_Tons fdf"

definition top_sellers ::
  "((string \<times> real) list \<Rightarrow> (string \<times> real) list) \<Rightarrow> data_row list \<Rightarrow> (string \<times> real) list" where
  "top_sellers sort_values_desc fdf =
     top_by sort_values_desc 10 Seller Total_calculated_value fdf"

section \<open>Rows used in the examples\<close>

text \<open>A row of the sheet with the three declarant cells and the HS code given.\<close>

definition sheet_row ::
  "string option \<Rightarrow> string option \<Rightarrow> string option \<Rightarrow> string \<Rightarrow> raw_row" where
  "sheet_row shipper intl domestic hs =
     \<lparr>Date = None, Shipper_Declared = shipper, International_Competitor = intl,
      Domestic_Competitor = domestic, HS_Code = hs, Country_of_Origin = None, Category = None,
      Metric_Tons = None, Total_calculated_value = None, Val_KG = None\<rparr>"

text \<open>
  A row of the loaded frame with its date, buyer, seller, HS code, country, category and
  metric tons given.
\<close>

definition trade ::
  "date option \<Rightarrow> string \<Rightarrow> string \<Rightarrow> string \<Rightarrow> string \<Rightarrow> string \<Rightarrow> real \<Rightarrow> data_row" where
  "trade d b s h c g t =
     \<lparr>Date = d, Shipper_Declared = Some s, International_Competitor = Some b,
      Domestic_Competitor = None, HS_Code = h, Country_of_Origin = Some c,
      Category = Some g, Metric_Tons = Some t, Total_calculated_value = None,
      Val_KG = None, Buyer = b, Seller = Some s\<rparr>"

text \<open>The filter state with nothing set.\<close>

definition nothing_set :: filter_state where
  "nothing_set =
     \<lparr>start_date = [], end_date = [], buyer = None, seller = None, hs_code = None,
      country = None, category = None\<rparr>"

text \<open>A small frame and a filter state used in the examples.\<close>

definition example_frame :: "data_row list" where
  "example_frame =
     [trade (Some (YMD 2024 1 20)) ''A'' ''S1'' ''854442'' ''CN'' ''Cable'' 100,
      trade None ''A'' ''S1'' ''854449'' ''CN'' ''Cable'' 5,
      trade (Some (YMD 2024 1 10)) ''A'' ''S2'' ''854442'' ''DE'' ''Wire'' 7,
      trade (Some (YMD 2024 1 15)) ''B'' ''S2'' ''740311'' ''DE'' ''Wire'' 50,
      trade (Some (YMD 2024 2 1)) ''Unknown'' ''S3'' ''854460'' ''US'' ''Cable'' 150]"

definition example_state :: filter_state where
  "example_state = nothing_set\<lparr>start_date := ''01/15/2024'', buyer := Some ''A''\<rparr>"

text \<open>
  The specification's words for ties, "broken by the first-encountered group (stable)":
  the groups taken in the order in which the records first show them, and a stable
  selection. This reading is compared with \<open>top_by\<close> below; it is not what the source
  computes.
\<close>

definition groupby_first_encountered ::
  "(data_row \<Rightarrow> string option) \<Rightarrow> (data_row \<Rightarrow> real option) \<Rightarrow> data_row list
     \<Rightarrow> (string \<times> real) list" where
  "groupby_first_encountered key col df =
     map (\<lambda>k. (k, group_total key col df k)) (unique (dropna (map key df)))"

definition top_by_first_encountered ::
  "nat \<Rightarrow> (data_row \<Rightarrow> string option) \<Rightarrow> (data_row \<Rightarrow> real option) \<Rightarrow> data_row list
     \<Rightarrow> (string \<times> real) list" where
  "top_by_first_encountered n key col df =
     take n (sort_key (\<lambda>p. - snd p) (groupby_first_encountered key col df))"

text \<open>The order of a ranking: larger sums first, equal sums by ascending key.\<close>

definition ranks_before :: "string \<times> real \<Rightarrow> string \<times> real \<Rightarrow> bool" where
  "ranks_before p q = (snd q < snd p \<or> (snd p = snd q \<and> fst p < fst q))"

text \<open>
  One sort the library's guarantee admits: descending, equal values in reverse order.
\<close>

definition reversed_ties :: "(string \<times> real) list \<Rightarrow> (string \<times> real) list" where
  "reversed_ties series = rev (sort_key snd series)"

text \<open>A record of a buyer with its metric tons and no date.\<close>

definition shipment :: "string \<Rightarrow> real \<Rightarrow> data_row" where
  "shipment b t = trade None b ''S'' ''854442'' ''CN'' ''Cable'' t"

text \<open>Eleven buyers with the same volume; the records show K first.\<close>

definition eleven_buyers :: "data_row list" where
  "eleven_buyers =
     [shipment ''K'' 100, shipment ''A'' 100, shipment ''B'' 100, shipment ''C'' 100,
      shipment ''D'' 100, shipment ''E'' 100, shipment ''F'' 100, shipment ''G'' 100,
      shipment ''H'' 100, shipment ''I'' 100, shipment ''J'' 100]"

text \<open>Two records of the loaded frame, one without a date and one with.\<close>

definition null_dated :: data_row where
  "null_dated = trade None ''B'' ''S1'' ''854449'' ''CN'' ''Cable'' 5"

definition dated :: data_row where
  "dated = trade (Some (YMD 2024 1 20)) ''A'' ''S1'' ''854442'' ''CN'' ''Cable'' 100"

section \<open>The texts of a date\<close>










section \<open>Properties\<close>

subsection \<open>Trimming\<close>



lemma strip_prefix_of_dropWhile:
  "dropWhile is_space s = strip s @ rev (takeWhile is_space (rev (dropWhile is_space s)))"
  unfolding strip_def by (metis rev_append rev_rev_ident takeWhile_dropWhile_id)

lemma strip_no_leading: "strip s \<noteq> [] \<Longrightarrow> \<not> is_space (hd (strip s))"
proof -
  assume a: "strip s \<noteq> []"
  define t where "t = dropWhile is_space s"
  define w where "w = rev (takeWhile is_space (rev (dropWhile is_space s)))"
  have eq: "t = strip s @ w" unfolding t_def w_def by (rule strip_prefix_of_dropWhile)
  have ne: "t \<noteq> []" using a eq by simp
  have "hd t = hd (strip s)" using a eq by simp
  moreover have "\<not> is_space (hd t)" using ne unfolding t_def by (rule hd_dropWhile)
  ultimately show ?thesis by simp
qed

lemma strip_no_trailing: "strip s \<noteq> [] \<Longrightarrow> \<not> is_space (last (strip s))"
proof -
  assume a: "strip s \<noteq> []"
  let ?u = "dropWhile is_space (rev (dropWhile is_space s))"
  have u: "?u \<noteq> []" using a by (simp add: strip_def)
  have "last (strip s) = hd ?u" using u by (simp add: strip_def last_rev)
  thus ?thesis using hd_dropWhile [OF u] by simp
qed

lemma strip_fixed:
  assumes "s \<noteq> [] \<Longrightarrow> \<not> is_space (hd s) \<and> \<not> is_space (last s)"
  shows "strip s = s"
proof (cases s)
  case Nil
  then show ?thesis by (simp add: strip_def)
next
  case (Cons c cs)
  with assms have h: "\<not> is_space (hd s)" and l: "\<not> is_space (last s)" by auto
  have 1: "dropWhile is_space s = s" using h Cons by simp
  have "rev s \<noteq> []" using Cons by simp
  then obtain x xs where rs: "rev s = x # xs" by (cases "rev s") auto
  have "hd (rev s) = last s" using Cons by (simp add: hd_rev)
  hence "\<not> is_space x" using l rs by simp
  hence 2: "dropWhile is_space (rev s) = rev s" unfolding rs by simp
  show ?thesis by (simp add: strip_def 1 2)
qed

lemma strip_idem: "strip (strip s) = strip s"
  by (rule strip_fixed) (simp add: strip_no_leading strip_no_trailing)

subsection \<open>The buyer of a row\<close>



text \<open>
  C9, as the code has it. When case (1) or case (2) decides, the buyer is the text of
  the chosen cell with the whitespace at its two ends removed, and otherwise unchanged
  (the normalized form is used for the comparison only). A buyer never starts or ends
  with whitespace.
\<close>

theorem buyer_is_trimmed_text:
  "(let i = cell_text (International_Competitor row);
        d = cell_text (Domestic_Competitor row);
        s = cell_text (Shipper_Declared row)
    in (i \<noteq> [] \<and> clean_name i \<noteq> clean_name s \<longrightarrow>
          (\<exists>raw. International_Competitor row = Some raw \<and> determine_buyer row = strip raw))
     \<and> (\<not> (i \<noteq> [] \<and> clean_name i \<noteq> clean_name s) \<and> d \<noteq> [] \<and> clean_name d \<noteq> clean_name s \<longrightarrow>
          (\<exists>raw. Domestic_Competitor row = Some raw \<and> determine_buyer row = strip raw)))
   \<and> determine_buyer row \<noteq> []
   \<and> \<not> is_space (hd (determine_buyer row))
   \<and> \<not> is_space (last (determine_buyer row))"
proof -
  have nonempty: "determine_buyer row \<noteq> []"
    unfolding determine_buyer_def Let_def by auto
  have cases: "determine_buyer row = ''Unknown''
      \<or> (determine_buyer row = cell_text (International_Competitor row)
           \<and> cell_text (International_Competitor row) \<noteq> [])
      \<or> (determine_buyer row = cell_text (Domestic_Competitor row)
           \<and> cell_text (Domestic_Competitor row) \<noteq> [])"
    unfolding determine_buyer_def Let_def by auto
  have ct: "\<And>c. cell_text c \<noteq> [] \<Longrightarrow> \<exists>raw. c = Some raw \<and> cell_text c = strip raw"
    by (auto simp: cell_text_def split: option.splits)
  have ends: "\<And>c. cell_text c \<noteq> [] \<Longrightarrow>
      \<not> is_space (hd (cell_text c)) \<and> \<not> is_space (last (cell_text c))"
    using ct strip_no_leading strip_no_trailing by metis
  have unk: "\<not> is_space (hd ''Unknown'') \<and> \<not> is_space (last ''Unknown'')"
    by (simp add: is_space_def)
  have e: "\<not> is_space (hd (determine_buyer row)) \<and> \<not> is_space (last (determine_buyer row))"
    using cases ends unk by metis
  have steps: "(let i = cell_text (International_Competitor row);
        d = cell_text (Domestic_Competitor row);
        s = cell_text (Shipper_Declared row)
    in (i \<noteq> [] \<and> clean_name i \<noteq> clean_name s \<longrightarrow>
          (\<exists>raw. International_Competitor row = Some raw \<and> determine_buyer row = strip raw))
     \<and> (\<not> (i \<noteq> [] \<and> clean_name i \<noteq> clean_name s) \<and> d \<noteq> [] \<and> clean_name d \<noteq> clean_name s \<longrightarrow>
          (\<exists>raw. Domestic_Competitor row = Some raw \<and> determine_buyer row = strip raw)))"
    unfolding Let_def
  proof (intro conjI impI)
    assume a: "cell_text (International_Competitor row) \<noteq> [] \<and>
      clean_name (cell_text (International_Competitor row)) \<noteq> clean_name (cell_text (Shipper_Declared row))"
    hence "determine_buyer row = cell_text (International_Competitor row)"
      unfolding determine_buyer_def Let_def by simp
    with a ct show "\<exists>raw. International_Competitor row = Some raw \<and> determine_buyer row = strip raw"
      by metis
  next
    assume a: "\<not> (cell_text (International_Competitor row) \<noteq> [] \<and>
      clean_name (cell_text (International_Competitor row)) \<noteq> clean_name (cell_text (Shipper_Declared row))) \<and>
      cell_text (Domestic_Competitor row) \<noteq> [] \<and>
      clean_name (cell_text (Domestic_Competitor row)) \<noteq> clean_name (cell_text (Shipper_Declared row))"
    hence "determine_buyer row = cell_text (Domestic_Competitor row)"
      unfolding determine_buyer_def Let_def by auto
    with a ct show "\<exists>raw. Domestic_Competitor row = Some raw \<and> determine_buyer row = strip raw"
      by metis
  qed
  from steps nonempty e show ?thesis by blast
qed

theorem buyer_is_trimmed_text_witness:
  "determine_buyer (sheet_row (Some ''Acme'') (Some '' Beta Inc  '') None ''854442'') = ''Beta Inc''"
  using buyer_is_trimmed_text [of "sheet_row (Some ''Acme'') (Some '' Beta Inc  '') None ''854442''"]
  by (simp add: sheet_row_def cell_text_def) code_simp

text \<open>
  The whitespace around the text of a competitor cell is not kept: the international
  competitor " Beta Inc  " gives the buyer "Beta Inc".
\<close>

theorem raw_whitespace_not_preserved:
  "determine_buyer (sheet_row (Some ''Acme'') (Some '' Beta Inc  '') None ''854442'') \<noteq> '' Beta Inc  ''"
  by (simp add: determine_buyer_def sheet_row_def cell_text_def) code_simp

subsection \<open>Resets\<close>

text \<open>
  C7. Resetting one dimension clears the value of that dimension (a date to the empty
  text, a dropdown to no value) and leaves the other six values as they are; resetting
  the buyer leaves the country unchanged; the global reset returns all seven values
  cleared at once.
\<close>

theorem reset_frame:
  "handle_resets (''start-date-reset.n_clicks'' # others) st = st\<lparr>start_date := []\<rparr>
 \<and> handle_resets (''end-date-reset.n_clicks'' # others) st = st\<lparr>end_date := []\<rparr>
 \<and> handle_resets (''buyer-reset.n_clicks'' # others) st = st\<lparr>buyer := None\<rparr>
 \<and> handle_resets (''seller-reset.n_clicks'' # others) st = st\<lparr>seller := None\<rparr>
 \<and> handle_resets (''hs-reset.n_clicks'' # others) st = st\<lparr>hs_code := None\<rparr>
 \<and> handle_resets (''country-reset.n_clicks'' # others) st = st\<lparr>country := None\<rparr>
 \<and> handle_resets (''category-reset.n_clicks'' # others) st = st\<lparr>category := None\<rparr>
 \<and> country (handle_resets (''buyer-reset.n_clicks'' # others) st) = country st
 \<and> handle_resets (''global-reset-btn.n_clicks'' # others) st =
      \<lparr>start_date = [], end_date = [], buyer = None, seller = None, hs_code = None,
       country = None, category = None\<rparr>"
  by (simp add: handle_resets_def)

subsection \<open>The filtered frame\<close>

text \<open>
  Where no statement raises, the filtered frame holds the records of the frame that every
  set dimension matches, whatever the order of the statements; a frame without null dates
  never raises.
\<close>

lemma parse_date_simple_Nil: "parse_date_simple [] = None"
  by (simp add: parse_date_simple_def)

lemma parse_example: "parse_date_simple ''01/15/2024'' = Some (YMD 2024 1 15)"
  by code_simp

lemma dimension_univ: "set source_order = UNIV"
proof -
  have "\<And>d. d \<in> set source_order" by (case_tac d) (simp_all add: source_order_def)
  thus ?thesis by auto
qed

lemma categorical_filter:
  "by_buyer st df = filter (\<lambda>r. \<not> is_set st BuyerDim \<or> matches st BuyerDim r) df"
  "by_seller st df = filter (\<lambda>r. \<not> is_set st SellerDim \<or> matches st SellerDim r) df"
  "by_hs_code st df = filter (\<lambda>r. \<not> is_set st HsCodeDim \<or> matches st HsCodeDim r) df"
  "by_country st df = filter (\<lambda>r. \<not> is_set st CountryDim \<or> matches st CountryDim r) df"
  "by_category st df = filter (\<lambda>r. \<not> is_set st CategoryDim \<or> matches st CategoryDim r) df"
  by (auto simp: by_buyer_def by_seller_def by_hs_code_def by_country_def by_category_def
        truthy_def split: option.splits intro!: filter_cong)

lemma apply_dimension_Inr:
  assumes "apply_dimension st d df = Inr out"
  shows "out = filter (\<lambda>r. \<not> is_set st d \<or> matches st d r) df"
proof (cases d)
  case StartDate
  thus ?thesis using assms
    by (auto simp: by_start_date_def parse_date_simple_Nil split: if_splits option.splits)
next
  case EndDate
  thus ?thesis using assms
    by (auto simp: by_end_date_def parse_date_simple_Nil split: if_splits option.splits)
qed (use assms in \<open>auto simp: categorical_filter\<close>)

lemma apply_in_order_Inr:
  "apply_in_order st ds df = Inr out \<Longrightarrow>
     out = filter (\<lambda>r. list_all (\<lambda>d. \<not> is_set st d \<or> matches st d r) ds) df"
proof (induction ds arbitrary: df)
  case Nil
  then show ?case by simp
next
  case (Cons d ds)
  from Cons.prems obtain f where f: "apply_dimension st d df = Inr f"
    and rest: "apply_in_order st ds f = Inr out"
    by (auto split: sum.splits)
  have "out = filter (\<lambda>r. list_all (\<lambda>d. \<not> is_set st d \<or> matches st d r) ds) f"
    by (rule Cons.IH [OF rest])
  also have "f = filter (\<lambda>r. \<not> is_set st d \<or> matches st d r) df"
    by (rule apply_dimension_Inr [OF f])
  finally show ?case by (simp add: conj_commute)
qed

lemma filtered_df_in_order: "filtered_df df st = apply_in_order st source_order df"
  by (simp add: filtered_df_def source_order_def split: sum.splits)

lemma filtered_df_Inr: "filtered_df df st = Inr out \<Longrightarrow> out = filter (survives st) df"
  unfolding filtered_df_in_order survives_def by (rule apply_in_order_Inr)

lemma survives_iff: "survives st r \<longleftrightarrow> (\<forall>d. is_set st d \<longrightarrow> matches st d r)"
proof -
  have "survives st r \<longleftrightarrow> (\<forall>d \<in> set source_order. \<not> is_set st d \<or> matches st d r)"
    by (simp add: survives_def list_all_iff)
  thus ?thesis by (auto simp: dimension_univ)
qed

lemma orders_agree:
  assumes "apply_in_order st ds df = Inr a" "apply_in_order st ds' df = Inr b" "set ds = set ds'"
  shows "a = b"
proof -
  have "list_all (\<lambda>d. \<not> is_set st d \<or> matches st d r) ds
      = list_all (\<lambda>d. \<not> is_set st d \<or> matches st d r) ds'" for r
    using assms(3) by (simp add: list_all_iff)
  thus ?thesis using apply_in_order_Inr [OF assms(1)] apply_in_order_Inr [OF assms(2)] by simp
qed

lemma no_null_dates_no_error:
  assumes "list_all (\<lambda>r. Date r \<noteq> None) df"
  shows "\<exists>out. apply_in_order st ds df = Inr out"
  using assms
proof (induction ds arbitrary: df)
  case Nil
  then show ?case by simp
next
  case (Cons d ds)
  have nn: "\<not> all_dates_null df"
    using Cons.prems by (cases df) (auto simp: all_dates_null_def)
  have "\<exists>f. apply_dimension st d df = Inr f"
    by (cases d) (auto simp: by_start_date_def by_end_date_def nn split: option.splits)
  then obtain f where f: "apply_dimension st d df = Inr f" by blast
  have "f = filter (\<lambda>r. \<not> is_set st d \<or> matches st d r) df" by (rule apply_dimension_Inr [OF f])
  hence "list_all (\<lambda>r. Date r \<noteq> None) f" using Cons.prems by (simp add: list_all_iff)
  from Cons.IH [OF this] show ?case by (simp add: f)
qed

lemma example_facts:
  "Date null_dated = None" "Date dated = Some (YMD 2024 1 20)"
  "Buyer null_dated = ''B''" "Buyer dated = ''A''"
  by (simp_all add: null_dated_def dated_def trade_def)

text \<open>
  C2 does not hold of the date statements. On a frame that is not empty and holds only
  null dates, a date statement whose bound parses raises TypeError where the intersection
  is the empty frame: the filtered frame of the frame [null date] with the start bound
  01/15/2024 is an error. The order of the statements then matters: on the frame
  [null date and buyer B, 2024-01-20 and buyer A] with the start bound 01/15/2024 and the
  buyer B, the order of the source gives the empty frame, and the order that starts with
  the buyer raises.
\<close>

theorem date_statement_breaks_intersection:
  "filtered_df [null_dated] (nothing_set\<lparr>start_date := ''01/15/2024''\<rparr>) = Inl TypeError
 \<and> apply_in_order (nothing_set\<lparr>start_date := ''01/15/2024'', buyer := Some ''B''\<rparr>)
      source_order [null_dated, dated] = Inr []
 \<and> apply_in_order (nothing_set\<lparr>start_date := ''01/15/2024'', buyer := Some ''B''\<rparr>)
      [BuyerDim, StartDate, EndDate, SellerDim, HsCodeDim, CountryDim, CategoryDim]
      [null_dated, dated] = Inl TypeError"
  by (simp add: filtered_df_def source_order_def nothing_set_def by_start_date_def by_end_date_def
        by_buyer_def by_seller_def by_hs_code_def by_country_def by_category_def parse_example
        all_dates_null_def example_facts date_ge_def)

lemma set_filtered_df: "filtered_df df st = Inr out \<Longrightarrow> set out \<subseteq> set df"
  by (auto dest: filtered_df_Inr)

lemma HS_Code_add_buyer_seller: "HS_Code (add_buyer_seller r) = HS_Code r"
  by (simp add: add_buyer_seller_def)

text \<open>
  C3. Every record the loader keeps, and so every record of any filtered frame, has an
  HS code whose text is one of 854442, 854449, 854460, 740311. A row of the sheet with
  another code is left out at load time, a row with one of the four is kept; when the
  sheet cannot be read the frame is empty and nothing is raised.
\<close>

text \<open>
  C3. Every record the loader keeps, and so every record of any filtered frame, has an
  HS code whose text is one of 854442, 854449, 854460, 740311. A row of the sheet with
  another code is left out at load time, a row with one of the four is kept; when the
  sheet cannot be read the frame is empty and nothing is raised.
\<close>

theorem allow_list_invariant:
  "(\<forall>r \<in> set (load_data sheet). HS_Code r \<in> {''854442'', ''854449'', ''854460'', ''740311''})
 \<and> (\<forall>out. filtered_df (load_data sheet) st = Inr out \<longrightarrow>
        (\<forall>r \<in> set out. HS_Code r \<in> {''854442'', ''854449'', ''854460'', ''740311''}))
 \<and> (\<forall>r \<in> set rows. HS_Code r \<notin> {''854442'', ''854449'', ''854460'', ''740311''}
        \<longrightarrow> add_buyer_seller r \<notin> set (load_data (Some rows)))
 \<and> (\<forall>r \<in> set rows. HS_Code r \<in> {''854442'', ''854449'', ''854460'', ''740311''}
        \<longrightarrow> add_buyer_seller r \<in> set (load_data (Some rows)))
 \<and> load_data None = []"
proof -
  have t: "set target_hs_codes = {''854442'', ''854449'', ''854460'', ''740311''}"
    by (simp add: target_hs_codes_def)
  have 1: "\<forall>r \<in> set (load_data sheet). HS_Code r \<in> set target_hs_codes"
    by (cases sheet) (auto simp: load_data_def)
  have 2: "\<forall>out. filtered_df (load_data sheet) st = Inr out \<longrightarrow>
        (\<forall>r \<in> set out. HS_Code r \<in> set target_hs_codes)"
    using 1 set_filtered_df by blast
  have 3: "\<forall>r \<in> set rows. HS_Code r \<notin> set target_hs_codes
        \<longrightarrow> add_buyer_seller r \<notin> set (load_data (Some rows))"
    by (auto simp: load_data_def HS_Code_add_buyer_seller)
  have 4: "\<forall>r \<in> set rows. HS_Code r \<in> set target_hs_codes
        \<longrightarrow> add_buyer_seller r \<in> set (load_data (Some rows))"
    by (auto simp: load_data_def HS_Code_add_buyer_seller)
  have 5: "load_data None = []" by (simp add: load_data_def)
  from 1 2 3 4 5 show ?thesis unfolding t by blast
qed

theorem allow_list_invariant_witness:
  "map HS_Code (load_data (Some [sheet_row (Some ''Acme'') (Some ''Beta Inc'') None ''854442'',
       sheet_row (Some ''Acme'') (Some ''Gamma'') None ''999999'',
       sheet_row (Some ''Acme'') None None ''740311''])) = [''854442'', ''740311'']
   \<and> add_buyer_seller (sheet_row (Some ''Acme'') (Some ''Gamma'') None ''999999'')
       \<notin> set (load_data (Some [sheet_row (Some ''Acme'') (Some ''Beta Inc'') None ''854442'',
       sheet_row (Some ''Acme'') (Some ''Gamma'') None ''999999'',
       sheet_row (Some ''Acme'') None None ''740311'']))"
  using allow_list_invariant [of "Some [sheet_row (Some ''Acme'') (Some ''Beta Inc'') None ''854442'',
       sheet_row (Some ''Acme'') (Some ''Gamma'') None ''999999'',
       sheet_row (Some ''Acme'') None None ''740311'']" nothing_set
       "[sheet_row (Some ''Acme'') (Some ''Beta Inc'') None ''854442'',
       sheet_row (Some ''Acme'') (Some ''Gamma'') None ''999999'',
       sheet_row (Some ''Acme'') None None ''740311'']"]
  by (simp add: load_data_def target_hs_codes_def HS_Code_add_buyer_seller sheet_row_def)

text \<open>
  C10 does not hold on a frame that holds only null dates. With the start bound, or the
  end bound, 01/15/2024 such a frame is not filtered to the empty frame: the date
  statement raises TypeError. On a frame that also holds a dated record the record
  without a date is left out, and with no bound set it is kept.
\<close>

theorem null_dates_only_frame_raises:
  "filtered_df [null_dated] (nothing_set\<lparr>start_date := ''01/15/2024''\<rparr>) = Inl TypeError
 \<and> filtered_df [null_dated] (nothing_set\<lparr>end_date := ''01/15/2024''\<rparr>) = Inl TypeError
 \<and> filtered_df [null_dated, dated] (nothing_set\<lparr>start_date := ''01/15/2024''\<rparr>) = Inr [dated]
 \<and> filtered_df [null_dated] nothing_set = Inr [null_dated]"
  by (simp add: filtered_df_def nothing_set_def by_start_date_def by_end_date_def
        by_buyer_def by_seller_def by_hs_code_def by_country_def by_category_def parse_example
        all_dates_null_def example_facts date_ge_def)

subsection \<open>The dropdown options\<close>

lemma options_sorted_fst: "map fst (options_sorted xs) = sort xs"
  by (simp add: options_sorted_def comp_def)

lemma options_sorted_snd: "map snd (options_sorted xs) = sort xs"
  by (simp add: options_sorted_def comp_def)

lemma set_unique: "set (unique xs) = set xs"
  by (simp add: unique_def)

lemma distinct_unique: "distinct (unique xs)"
  by (simp add: unique_def)

lemma set_dropna: "set (dropna xs) = {x. Some x \<in> set xs}"
  by (induction xs rule: dropna.induct) auto

lemma distinct_target_hs_codes: "distinct target_hs_codes"
  by (simp add: target_hs_codes_def)

lemma options_sorted_props:
  assumes "distinct xs"
  shows "map snd (options_sorted xs) = map fst (options_sorted xs)
       \<and> sorted (map fst (options_sorted xs)) \<and> distinct (map fst (options_sorted xs))
       \<and> set (map fst (options_sorted xs)) = set xs"
  using assms by (simp add: options_sorted_fst options_sorted_snd)

lemma dropdown_options_returned:
  assumes "update_dropdown_options df st
             = Inr (buyer_options, seller_options, hs_options, country_options, category_options)"
  shows "\<exists>fdf. fdf = filter (survives st) df
      \<and> map snd buyer_options = map fst buyer_options
      \<and> sorted (map fst buyer_options) \<and> distinct (map fst buyer_options)
      \<and> set (map fst buyer_options) = Buyer ` set fdf - {''Unknown''}
      \<and> map snd seller_options = map fst seller_options
      \<and> sorted (map fst seller_options) \<and> distinct (map fst seller_options)
      \<and> set (map fst seller_options) = {s. Some s \<in> Seller ` set fdf}
      \<and> map snd hs_options = map fst hs_options
      \<and> sorted (map fst hs_options) \<and> distinct (map fst hs_options)
      \<and> set (map fst hs_options)
           = {''854442'', ''854449'', ''854460'', ''740311''} \<inter> HS_Code ` set fdf
      \<and> map snd country_options = map fst country_options
      \<and> sorted (map fst country_options) \<and> distinct (map fst country_options)
      \<and> set (map fst country_options) = {c. Some c \<in> Country_of_Origin ` set fdf}
      \<and> map snd category_options = map fst category_options
      \<and> sorted (map fst category_options) \<and> distinct (map fst category_options)
      \<and> set (map fst category_options) = {c. Some c \<in> Category ` set fdf}"
proof -
  define fdf where "fdf = filter (survives st) df"
  let ?B = "filter (\<lambda>b. b \<noteq> ''Unknown'') (unique (map Buyer fdf))"
  let ?S = "unique (dropna (map Seller fdf))"
  let ?H = "filter (\<lambda>code. code \<in> set (unique (map HS_Code fdf))) target_hs_codes"
  let ?C = "unique (dropna (map Country_of_Origin fdf))"
  let ?G = "unique (dropna (map Category fdf))"
  have eq: "(buyer_options, seller_options, hs_options, country_options, category_options) =
      (options_sorted ?B, options_sorted ?S, options_sorted ?H, options_sorted ?C,
       options_sorted ?G)"
  proof (cases "df = []")
    case True
    hence "fdf = []" by (simp add: fdf_def)
    thus ?thesis using True assms
      by (simp add: update_dropdown_options_def options_sorted_def unique_def target_hs_codes_def)
  next
    case False
    from assms False obtain f where f: "filtered_df df st = Inr f"
      by (auto simp: update_dropdown_options_def split: sum.splits)
    have "f = fdf" unfolding fdf_def by (rule filtered_df_Inr [OF f])
    thus ?thesis using assms False f by (simp add: update_dropdown_options_def Let_def)
  qed
  have sB: "set ?B = Buyer ` set fdf - {''Unknown''}" by (auto simp: set_unique)
  have sS: "set ?S = {s. Some s \<in> Seller ` set fdf}" by (simp add: set_unique set_dropna)
  have sH: "set ?H = {''854442'', ''854449'', ''854460'', ''740311''} \<inter> HS_Code ` set fdf"
    by (auto simp: set_unique target_hs_codes_def)
  have sC: "set ?C = {c. Some c \<in> Country_of_Origin ` set fdf}"
    by (simp add: set_unique set_dropna)
  have sG: "set ?G = {c. Some c \<in> Category ` set fdf}" by (simp add: set_unique set_dropna)
  have dB: "distinct ?B" by (simp add: distinct_unique)
  have dS: "distinct ?S" by (rule distinct_unique)
  have dH: "distinct ?H" by (simp add: distinct_target_hs_codes)
  have dC: "distinct ?C" by (rule distinct_unique)
  have dG: "distinct ?G" by (rule distinct_unique)
  note pB = options_sorted_props [OF dB, unfolded sB]
  note pS = options_sorted_props [OF dS, unfolded sS]
  note pH = options_sorted_props [OF dH, unfolded sH]
  note pC = options_sorted_props [OF dC, unfolded sC]
  note pG = options_sorted_props [OF dG, unfolded sG]
  have b: "buyer_options = options_sorted ?B" and s: "seller_options = options_sorted ?S"
    and h: "hs_options = options_sorted ?H" and c: "country_options = options_sorted ?C"
    and g: "category_options = options_sorted ?G"
    using eq by simp_all
  show ?thesis
    apply (rule exI [of _ fdf])
    unfolding b s h c g
    apply (intro conjI)
    apply (rule fdf_def)
    apply (rule pB [THEN conjunct1])
    apply (rule pB [THEN conjunct2, THEN conjunct1])
    apply (rule pB [THEN conjunct2, THEN conjunct2, THEN conjunct1])
    apply (rule pB [THEN conjunct2, THEN conjunct2, THEN conjunct2])
    apply (rule pS [THEN conjunct1])
    apply (rule pS [THEN conjunct2, THEN conjunct1])
    apply (rule pS [THEN conjunct2, THEN conjunct2, THEN conjunct1])
    apply (rule pS [THEN conjunct2, THEN conjunct2, THEN conjunct2])
    apply (rule pH [THEN conjunct1])
    apply (rule pH [THEN conjunct2, THEN conjunct1])
    apply (rule pH [THEN conjunct2, THEN conjunct2, THEN conjunct1])
    apply (rule pH [THEN conjunct2, THEN conjunct2, THEN conjunct2])
    apply (rule pC [THEN conjunct1])
    apply (rule pC [THEN conjunct2, THEN conjunct1])
    apply (rule pC [THEN conjunct2, THEN conjunct2, THEN conjunct1])
    apply (rule pC [THEN conjunct2, THEN conjunct2, THEN conjunct2])
    apply (rule pG [THEN conjunct1])
    apply (rule pG [THEN conjunct2, THEN conjunct1])
    apply (rule pG [THEN conjunct2, THEN conjunct2, THEN conjunct1])
    apply (rule pG [THEN conjunct2, THEN conjunct2, THEN conjunct2])
    done
qed

text \<open>
  C4 does not hold on a frame that holds only null dates: with a date bound that parses,
  the narrowing raises TypeError and no option list is returned. (Whenever option lists
  are returned they are as the claim says: \<open>dropdown_options_returned\<close>.)
\<close>

theorem dropdown_options_raise:
  "update_dropdown_options [null_dated] (nothing_set\<lparr>start_date := ''01/15/2024''\<rparr>)
     = Inl TypeError
 \<and> update_dropdown_options [null_dated] (nothing_set\<lparr>end_date := ''01/15/2024''\<rparr>)
     = Inl TypeError"
  by (simp add: update_dropdown_options_def filtered_df_def nothing_set_def by_start_date_def
        by_end_date_def parse_example all_dates_null_def example_facts)

subsection \<open>Top groups\<close>

lemma distinct_map_insort_key:
  "distinct (map g (insort_key f x xs)) = distinct (map g (x # xs))"
  by (induction xs) (auto simp: set_insort_key)

lemma distinct_map_sort_key: "distinct (map g (sort_key f xs)) = distinct (map g xs)"
  by (induction xs) (simp_all add: distinct_map_insort_key)

lemma insort_key_ranks:
  assumes "sorted_wrt ranks_before ys" and "\<forall>y \<in> set ys. fst x < fst y"
  shows "sorted_wrt ranks_before (insort_key (\<lambda>p. - snd p) x ys)"
  using assms
proof (induction ys)
  case Nil
  then show ?case by simp
next
  case (Cons y ys)
  show ?case
  proof (cases "snd y \<le> snd x")
    case True
    have "\<forall>z \<in> set (y # ys). ranks_before x z"
    proof
      fix z assume z: "z \<in> set (y # ys)"
      have "snd z \<le> snd y" using Cons.prems(1) z by (auto simp: ranks_before_def)
      hence "snd z \<le> snd x" using True by simp
      moreover have "fst x < fst z" using Cons.prems(2) z by blast
      ultimately show "ranks_before x z" by (auto simp: ranks_before_def)
    qed
    thus ?thesis using True Cons.prems(1) by simp
  next
    case False
    have tail: "sorted_wrt ranks_before (insort_key (\<lambda>p. - snd p) x ys)"
      using Cons by simp
    have "ranks_before y x" using False by (simp add: ranks_before_def)
    thus ?thesis using False tail Cons.prems(1) by (auto simp: set_insort_key)
  qed
qed

lemma sort_key_ranks:
  "sorted_wrt (<) (map fst xs) \<Longrightarrow> sorted_wrt ranks_before (sort_key (\<lambda>p. - snd p) xs)"
proof (induction xs)
  case Nil
  then show ?case by simp
next
  case (Cons x xs)
  have "\<forall>y \<in> set (sort_key (\<lambda>p. - snd p) xs). fst x < fst y" using Cons.prems by auto
  moreover have "sorted_wrt ranks_before (sort_key (\<lambda>p. - snd p) xs)" using Cons by simp
  ultimately show ?case by (simp add: insort_key_ranks)
qed

lemma group_keys:
  "sorted_wrt (<) (sort (unique (dropna (map key df))))
   \<and> set (sort (unique (dropna (map key df)))) = {k. Some k \<in> key ` set df}"
  by (simp add: strict_sorted_iff distinct_unique set_unique set_dropna)

lemma groupby_sum_fst: "map fst (groupby_sum key col df) = sort (unique (dropna (map key df)))"
  by (simp add: groupby_sum_def comp_def)

lemma groupby_sum_snd:
  "p \<in> set (groupby_sum key col df) \<Longrightarrow> snd p = group_total key col df (fst p)"
  by (auto simp: groupby_sum_def)

lemma reversed_ties_descending: "descending_sort_of series (reversed_ties series)"
proof -
  have "sorted (map snd (sort_key snd series))" by (rule sorted_sort_key)
  hence "sorted_wrt (\<lambda>p q. snd p \<le> snd q) (sort_key snd series)"
    by (simp add: sorted_map)
  hence "sorted_wrt (\<lambda>p q. snd q \<le> snd p) (rev (sort_key snd series))"
    by (simp add: sorted_wrt_rev)
  thus ?thesis by (simp add: descending_sort_of_def reversed_ties_def)
qed

lemma ranks_before_descending:
  "sorted_wrt ranks_before xs \<Longrightarrow> sorted_wrt (\<lambda>p q. snd q \<le> snd p) xs"
  by (rule sorted_wrt_mono_rel [of xs ranks_before]) (auto simp: ranks_before_def)

text \<open>
  C8, as the code has it. \<open>top_by n\<close> groups the records by the key (records with an
  empty key are left out), sums the column per group (empty cells are skipped) and
  returns the first \<open>n\<close> groups of a ranking of all groups by descending sum. When
  there are more than \<open>n\<close> groups, groups with equal sums stand in ascending order
  of their keys; when there are at most \<open>n\<close>, the order among groups with equal sums
  is the one the library's sort leaves, of which nothing is said. The top ten buyers by
  volume and the top ten sellers by value are instances. For the buyers A (100 tons),
  B (50) and C (150) the top 2 by volume is [(C, 150), (A, 100)].
\<close>

theorem top_by_ranking:
  "(descending_sort_of (groupby_sum key col df) (sort_values_desc (groupby_sum key col df)) \<longrightarrow>
     (\<exists>ranking.
        top_by sort_values_desc n key col df = take n ranking
      \<and> distinct (map fst ranking)
      \<and> set (map fst ranking) = {k. Some k \<in> key ` set df}
      \<and> map snd ranking = map (group_total key col df) (map fst ranking)
      \<and> sorted_wrt (\<lambda>p q. snd q \<le> snd p) ranking
      \<and> (n < length ranking \<longrightarrow> sorted_wrt ranks_before ranking)))
 \<and> group_total key col df k = sum_list (dropna (map col (filter (\<lambda>r. key r = Some k) df)))
 \<and> top_buyers sort_values_desc df = top_by sort_values_desc 10 (\<lambda>r. Some (Buyer r)) Metric_Tons df
 \<and> top_sellers sort_values_desc df = top_by sort_values_desc 10 Seller Total_calculated_value df
 \<and> top_by sort_values_desc 2 (\<lambda>r. Some (Buyer r)) Metric_Tons
      [shipment ''A'' 100, shipment ''B'' 50, shipment ''C'' 150] = [(''C'', 150), (''A'', 100)]"
proof -
  let ?gs = "groupby_sum key col df"
  have dg: "distinct (map fst ?gs)"
    unfolding groupby_sum_fst using group_keys [of key df] by (simp add: strict_sorted_iff)
  have sg: "set (map fst ?gs) = {k. Some k \<in> key ` set df}"
    unfolding groupby_sum_fst using group_keys [of key df] by simp
  have ex: "\<exists>ranking.
        top_by sort_values_desc n key col df = take n ranking
      \<and> distinct (map fst ranking)
      \<and> set (map fst ranking) = {k. Some k \<in> key ` set df}
      \<and> map snd ranking = map (group_total key col df) (map fst ranking)
      \<and> sorted_wrt (\<lambda>p q. snd q \<le> snd p) ranking
      \<and> (n < length ranking \<longrightarrow> sorted_wrt ranks_before ranking)"
    if h: "descending_sort_of ?gs (sort_values_desc ?gs)"
  proof (cases "length ?gs \<le> n")
    case True
    let ?r = "sort_values_desc ?gs"
    have m: "mset ?r = mset ?gs" using h by (simp add: descending_sort_of_def)
    hence len: "length ?r = length ?gs" by (rule mset_eq_length)
    have st: "set ?r = set ?gs" using m by (rule mset_eq_setD)
    have 1: "top_by sort_values_desc n key col df = take n ?r"
      using True by (simp add: top_by_def nlargest_def)
    have mm: "mset (map fst ?r) = mset (map fst ?gs)" using m by (metis mset_map)
    have 2: "distinct (map fst ?r)" using dg mm by (metis mset_eq_imp_distinct_iff)
    have 3: "set (map fst ?r) = {k. Some k \<in> key ` set df}" using sg st by simp
    have 4: "map snd ?r = map (group_total key col df) (map fst ?r)"
      using st by (simp add: groupby_sum_snd)
    have 5: "sorted_wrt (\<lambda>p q. snd q \<le> snd p) ?r" using h by (simp add: descending_sort_of_def)
    have 6: "n < length ?r \<longrightarrow> sorted_wrt ranks_before ?r" using True len by simp
    from 1 2 3 4 5 6 show ?thesis by blast
  next
    case False
    let ?r = "sort_key (\<lambda>p. - snd p) ?gs"
    have 1: "top_by sort_values_desc n key col df = take n ?r"
      using False by (simp add: top_by_def nlargest_def)
    have 2: "distinct (map fst ?r)" using dg by (simp add: distinct_map_sort_key)
    have 3: "set (map fst ?r) = {k. Some k \<in> key ` set df}" using sg by simp
    have 4: "map snd ?r = map (group_total key col df) (map fst ?r)"
      by (simp add: groupby_sum_snd)
    have 5: "sorted_wrt ranks_before ?r"
      by (rule sort_key_ranks) (simp add: groupby_sum_fst group_keys)
    from 1 2 3 4 5 ranks_before_descending [OF 5] show ?thesis by blast
  qed
  have 6: "top_by sort_values_desc 2 (\<lambda>r. Some (Buyer r)) Metric_Tons
      [shipment ''A'' 100, shipment ''B'' 50, shipment ''C'' 150] = [(''C'', 150), (''A'', 100)]"
    by (simp add: top_by_def nlargest_def groupby_sum_def group_total_def unique_def
          shipment_def trade_def)
  show ?thesis
    apply (intro conjI impI)
    apply (erule ex)
    apply (simp add: group_total_def)
    apply (simp add: top_buyers_def)
    apply (simp add: top_sellers_def)
    apply (rule 6)
    done
qed

theorem top_by_ranking_witness:
  "top_buyers reversed_ties [shipment ''B'' 100, shipment ''C'' 100]
     = [(''C'', 100), (''B'', 100)]
 \<and> (\<exists>ranking. top_buyers reversed_ties [shipment ''B'' 100, shipment ''C'' 100] = take 10 ranking
       \<and> sorted_wrt (\<lambda>p q. snd q \<le> snd p) ranking)"
proof -
  let ?df = "[shipment ''B'' 100, shipment ''C'' 100]"
  have e: "top_buyers reversed_ties ?df = [(''C'', 100), (''B'', 100)]"
    by (simp add: top_buyers_def top_by_def nlargest_def groupby_sum_def group_total_def
          unique_def shipment_def trade_def reversed_ties_def)
  note t = top_by_ranking [of "\<lambda>r. Some (Buyer r)" Metric_Tons ?df reversed_ties 10 "''B''",
      THEN conjunct1, rule_format, OF reversed_ties_descending]
  from t obtain ranking where
    "top_by reversed_ties 10 (\<lambda>r. Some (Buyer r)) Metric_Tons ?df = take 10 ranking"
    "sorted_wrt (\<lambda>p q. snd q \<le> snd p) ranking" by blast
  hence "\<exists>ranking. top_buyers reversed_ties ?df = take 10 ranking
       \<and> sorted_wrt (\<lambda>p q. snd q \<le> snd p) ranking"
    unfolding top_buyers_def by blast
  with e show ?thesis by blast
qed

text \<open>
  Ties do not go to the group the records show first: of eleven buyers with the same
  volume, K first in the records, the source returns A to J, where the first-encountered
  reading returns K and A to I.
\<close>

theorem ties_not_by_first_encounter:
  "top_buyers reversed_ties eleven_buyers
     = [(''A'', 100), (''B'', 100), (''C'', 100), (''D'', 100), (''E'', 100), (''F'', 100),
        (''G'', 100), (''H'', 100), (''I'', 100), (''J'', 100)]
 \<and> top_by_first_encountered 10 (\<lambda>r. Some (Buyer r)) Metric_Tons eleven_buyers
     = [(''K'', 100), (''A'', 100), (''B'', 100), (''C'', 100), (''D'', 100), (''E'', 100),
        (''F'', 100), (''G'', 100), (''H'', 100), (''I'', 100)]"
  by (simp add: top_buyers_def top_by_def top_by_first_encountered_def nlargest_def
        groupby_sum_def groupby_first_encountered_def group_total_def unique_def
        eleven_buyers_def shipment_def trade_def)

subsection \<open>Date bounds\<close>








































end
